theory Spec2Isabelle
  imports Complex_Main "HOL-Library.Word" "HOL-Library.Sublist"
begin

section \<open>JavaScript values reaching the server\<close>

text \<open>
  A JavaScript string is a sequence of UTF-16 code units. The payload of a
  \<^verbatim>\<open>new_message\<close> event is whatever the Socket.IO parser hands to the
  listener: a JSON value, or \<^verbatim>\<open>undefined\<close> when the event carries no
  argument. Functions and symbols cannot travel over the wire, so no payload has a
  callable \<^verbatim>\<open>trim\<close> property unless it is a string.
\<close>

type_synonym jsstring = "16 word list"

definition str :: "string \<Rightarrow> jsstring" where
  "str cs = map of_char cs"

datatype jsnum = NaN | PosInfinity | NegInfinity | Fin rat

datatype jsval =
    JUndefined
  | JNull
  | JBoolean bool
  | JNumber jsnum
  | JString jsstring
  | JObject "(jsstring \<times> jsval) list"
  | JArray "jsval list"

text \<open>
  ToBoolean, as \<^verbatim>\<open>msg && ...\<close> applies it: \<^verbatim>\<open>undefined\<close>,
  \<^verbatim>\<open>null\<close>, \<^verbatim>\<open>false\<close>, zero, NaN and the empty string are falsy;
  every other value, every object and array included, is truthy.
\<close>

fun truthy :: "jsval \<Rightarrow> bool" where
  "truthy JUndefined = False"
| "truthy JNull = False"
| "truthy (JBoolean b) = b"
| "truthy (JNumber n) = (n \<noteq> NaN \<and> n \<noteq> Fin 0)"
| "truthy (JString t) = (t \<noteq> [])"
| "truthy (JObject ps) = True"
| "truthy (JArray vs) = True"

text \<open>
  The code units \<^verbatim>\<open>String.prototype.trim\<close> strips: ECMAScript's WhiteSpace
  (TAB, VT, FF, SP, NBSP, ZWNBSP and the Unicode space separators) and LineTerminator
  (LF, CR, LS, PS). All of them lie in the Basic Multilingual Plane, so the test is
  per code unit.
\<close>

definition white_space :: "16 word \<Rightarrow> bool" where
  "white_space c \<longleftrightarrow>
     c = 0x0009 \<or> c = 0x000A \<or> c = 0x000B \<or> c = 0x000C \<or> c = 0x000D \<or>
     c = 0x0020 \<or> c = 0x00A0 \<or> c = 0x1680 \<or> (0x2000 \<le> c \<and> c \<le> 0x200A) \<or>
     c = 0x2028 \<or> c = 0x2029 \<or> c = 0x202F \<or> c = 0x205F \<or> c = 0x3000 \<or>
     c = 0xFEFF"

definition trim :: "jsstring \<Rightarrow> jsstring" where
  "trim t = rev (dropWhile white_space (rev (dropWhile white_space t)))"

text \<open>\<^verbatim>\<open>typeof v === 'string'\<close>.\<close>

fun is_string :: "jsval \<Rightarrow> bool" where
  "is_string (JString t) = True"
| "is_string v = False"

datatype error = TypeError

section \<open>The server's state\<close>

text \<open>
  \<^verbatim>\<open>const messageData = { id: Date.now(), text: msg }\<close>: the record the
  server stores and broadcasts. \<^verbatim>\<open>Date.now()\<close> is an integer number of
  milliseconds; \<open>text_m\<close> holds the payload itself, whatever its type.
\<close>

record message =
  id_m :: int
  text_m :: jsval

type_synonym socket_id = string

datatype server_event =
    load_messages "message list"
  | display_message message

datatype log_line =
    User_connected socket_id
  | Message_received jsval
  | User_disconnected socket_id

text \<open>
  \<open>messages\<close> is the module-level array of \<^verbatim>\<open>server.js\<close>. The other
  fields are the channel the program talks to: \<open>sockets\<close> is the set of connected
  sockets Socket.IO keeps, \<open>delivered c\<close> the events emitted to client \<open>c\<close> so far,
  oldest first, and \<open>console\<close> what \<^verbatim>\<open>console.log\<close> has printed.
\<close>

record state =
  messages :: "message list"
  sockets :: "socket_id set"
  delivered :: "socket_id \<Rightarrow> server_event list"
  console :: "log_line list"

definition init_state :: state where
  "init_state = \<lparr>messages = [], sockets = {}, delivered = (\<lambda>c. []), console = []\<rparr>"

subsection \<open>The channel: Socket.IO's emit and the console\<close>

text \<open>
  \<^verbatim>\<open>socket.emit(ev, data)\<close> sends one event to that socket;
  \<^verbatim>\<open>io.emit(ev, data)\<close> sends one event to every connected socket. The
  payload is serialised when emit is called, so a later push to the array does not
  change what was sent.
\<close>

definition socket_emit :: "socket_id \<Rightarrow> server_event \<Rightarrow> state \<Rightarrow> state" where
  "socket_emit c ev s = s\<lparr>delivered := (delivered s)(c := delivered s c @ [ev])\<rparr>"

definition io_emit :: "server_event \<Rightarrow> state \<Rightarrow> state" where
  "io_emit ev s =
     s\<lparr>delivered := (\<lambda>c. if c \<in> sockets s then delivered s c @ [ev] else delivered s c)\<rparr>"

definition console_log :: "log_line \<Rightarrow> state \<Rightarrow> state" where
  "console_log l s = s\<lparr>console := console s @ [l]\<rparr>"

subsection \<open>The handlers of server.js\<close>

text \<open>
  The condition \<^verbatim>\<open>msg && msg.trim().length > 0\<close>. A falsy \<open>msg\<close>
  short-circuits. A truthy string is trimmed and measured. Any other truthy value has
  no callable \<^verbatim>\<open>trim\<close>, and the call throws a TypeError.
\<close>

definition validation :: "jsval \<Rightarrow> error + bool" where
  "validation msg =
     (if \<not> truthy msg then Inr False
      else case msg of
        JString t \<Rightarrow> Inr (0 < length (trim t))
      | _ \<Rightarrow> Inl TypeError)"

text \<open>
  \<^verbatim>\<open>socket.on('new_message', (msg) => {...})\<close>, with \<open>now\<close> the value
  \<^verbatim>\<open>Date.now()\<close> returns. A handler yields how it ended and the state it
  left: the log line is printed before the condition is evaluated, so it stays when
  the condition throws.
\<close>

definition on_new_message :: "int \<Rightarrow> jsval \<Rightarrow> state \<Rightarrow> (error + unit) \<times> state" where
  "on_new_message now msg s =
     (let s1 = console_log (Message_received msg) s in
      case validation msg of
        Inl e \<Rightarrow> (Inl e, s1)
      | Inr False \<Rightarrow> (Inr (), s1)
      | Inr True \<Rightarrow>
          (let messageData = \<lparr>id_m = now, text_m = msg\<rparr>;
               s2 = s1\<lparr>messages := messages s1 @ [messageData]\<rparr>
           in (Inr (), io_emit (display_message messageData) s2)))"

text \<open>
  \<^verbatim>\<open>io.on('connection', (socket) => {...})\<close>: log, send the backlog to
  the new socket, register the two listeners.
\<close>

definition on_connection :: "socket_id \<Rightarrow> state \<Rightarrow> (error + unit) \<times> state" where
  "on_connection c s =
     (let s1 = console_log (User_connected c) s
      in (Inr (), socket_emit c (load_messages (messages s1)) s1))"

text \<open>\<^verbatim>\<open>socket.on('disconnect', () => {...})\<close>: a log line only.\<close>

definition on_disconnect :: "socket_id \<Rightarrow> state \<Rightarrow> (error + unit) \<times> state" where
  "on_disconnect c s = (Inr (), console_log (User_disconnected c) s)"

subsection \<open>Dispatch\<close>

text \<open>
  What Socket.IO does around the handlers. A new socket joins the connected set before
  the connection handler runs. The \<^verbatim>\<open>new_message\<close> and
  \<^verbatim>\<open>disconnect\<close> listeners exist per connected socket, so an event of a
  socket that is not connected reaches no handler. A closing socket leaves the
  connected set before its disconnect listener runs.
\<close>

datatype event =
    Connection socket_id
  | New_message socket_id jsval
  | Disconnect socket_id

fun step :: "int \<Rightarrow> event \<Rightarrow> state \<Rightarrow> (error + unit) \<times> state" where
  "step now (Connection c) s = on_connection c (s\<lparr>sockets := insert c (sockets s)\<rparr>)"
| "step now (New_message c msg) s =
     (if c \<in> sockets s then on_new_message now msg s else (Inr (), s))"
| "step now (Disconnect c) s =
     (if c \<in> sockets s then on_disconnect c (s\<lparr>sockets := sockets s - {c}\<rparr>)
      else (Inr (), s))"

text \<open>
  A run of the single-threaded event loop: the events in arrival order, each with the
  clock reading at which it is handled. An exception no handler catches ends the
  process, so the run stops at the first throw.
\<close>

fun run :: "(int \<times> event) list \<Rightarrow> state \<Rightarrow> (error + unit) \<times> state" where
  "run [] s = (Inr (), s)"
| "run ((now, ev) # rest) s =
     (case step now ev s of
        (Inl e, s') \<Rightarrow> (Inl e, s')
      | (Inr u, s') \<Rightarrow> run rest s')"

subsection \<open>Sample states\<close>

text \<open>The state with two clients connected and an empty store.\<close>

definition two_clients :: state where
  "two_clients = snd (run [(1, Connection ''A''), (2, Connection ''B'')] init_state)"

text \<open>The same two clients after the store has taken two messages in the same millisecond.\<close>

definition two_messages :: state where
  "two_messages =
     snd (run [(5, New_message ''A'' (JString (str ''a''))),
               (5, New_message ''B'' (JString (str ''b'')))] two_clients)"

section \<open>Basic facts\<close>

lemma trim_Nil: "trim [] = []"
  by (simp add: trim_def)

lemma validation_JString: "validation (JString t) = Inr (0 < length (trim t))"
  by (cases t) (simp_all add: validation_def trim_Nil)

lemma validation_throws:
  "truthy msg \<Longrightarrow> \<not> is_string msg \<Longrightarrow> validation msg = Inl TypeError"
  by (cases msg) (simp_all add: validation_def)

lemma validation_True_iff:
  "validation msg = Inr True \<longleftrightarrow> (\<exists>t. msg = JString t \<and> 0 < length (trim t))"
  by (cases msg) (auto simp: validation_def trim_Nil)

text \<open>The three ways the \<^verbatim>\<open>new_message\<close> listener can end.\<close>

lemma on_new_message_accept:
  "0 < length (trim t) \<Longrightarrow>
   on_new_message now (JString t) s =
     (Inr (), io_emit (display_message \<lparr>id_m = now, text_m = JString t\<rparr>)
        (console_log (Message_received (JString t)) s
           \<lparr>messages := messages s @ [\<lparr>id_m = now, text_m = JString t\<rparr>]\<rparr>))"
  by (simp add: on_new_message_def validation_JString Let_def console_log_def)

lemma on_new_message_reject:
  "validation msg = Inr False \<Longrightarrow>
   on_new_message now msg s = (Inr (), console_log (Message_received msg) s)"
  by (simp add: on_new_message_def Let_def)

lemma on_new_message_throw:
  "validation msg = Inl e \<Longrightarrow>
   on_new_message now msg s = (Inl e, console_log (Message_received msg) s)"
  by (simp add: on_new_message_def Let_def)

text \<open>Which fields each channel operation leaves alone, and what each one delivers.\<close>

lemma messages_io_emit [simp]: "messages (io_emit ev s) = messages s"
  and sockets_io_emit [simp]: "sockets (io_emit ev s) = sockets s"
  and console_io_emit [simp]: "console (io_emit ev s) = console s"
  by (simp_all add: io_emit_def)

lemma messages_socket_emit [simp]: "messages (socket_emit c ev s) = messages s"
  and sockets_socket_emit [simp]: "sockets (socket_emit c ev s) = sockets s"
  and console_socket_emit [simp]: "console (socket_emit c ev s) = console s"
  by (simp_all add: socket_emit_def)

lemma messages_console_log [simp]: "messages (console_log l s) = messages s"
  and sockets_console_log [simp]: "sockets (console_log l s) = sockets s"
  and delivered_console_log [simp]: "delivered (console_log l s) = delivered s"
  by (simp_all add: console_log_def)

lemma delivered_io_emit:
  "delivered (io_emit ev s) c = (if c \<in> sockets s then delivered s c @ [ev] else delivered s c)"
  by (simp add: io_emit_def)

lemma delivered_socket_emit:
  "delivered (socket_emit c ev s) d = (if d = c then delivered s c @ [ev] else delivered s d)"
  by (simp add: socket_emit_def)

lemma delivered_on_new_message:
  "delivered (snd (on_new_message now msg s)) b =
     (if validation msg = Inr True \<and> b \<in> sockets s
      then delivered s b @ [display_message \<lparr>id_m = now, text_m = msg\<rparr>]
      else delivered s b)"
  by (simp add: on_new_message_def Let_def delivered_io_emit split: sum.split bool.split)

text \<open>
  One dispatched event either leaves the store as it was or appends one record, stamped
  with the clock reading and carrying a string that is not blank.
\<close>

lemma step_messages_cases:
  "messages (snd (step now ev s)) = messages s \<or>
   (\<exists>t. 0 < length (trim t) \<and>
        messages (snd (step now ev s)) = messages s @ [\<lparr>id_m = now, text_m = JString t\<rparr>])"
proof (cases ev)
  case (Connection c)
  then show ?thesis by (simp add: on_connection_def Let_def)
next
  case (New_message c msg)
  show ?thesis
  proof (cases "validation msg")
    case (Inl e)
    with New_message show ?thesis by (simp add: on_new_message_throw)
  next
    case (Inr b)
    show ?thesis
    proof (cases b)
      case True
      with Inr obtain t where "msg = JString t" "0 < length (trim t)"
        by (auto simp: validation_True_iff)
      with New_message show ?thesis by (simp add: on_new_message_accept)
    next
      case False
      with Inr New_message show ?thesis by (simp add: on_new_message_reject)
    qed
  qed
next
  case (Disconnect c)
  then show ?thesis by (simp add: on_disconnect_def)
qed

text \<open>A property of the store that every dispatched event keeps holds after every run.\<close>

lemma run_invariant:
  assumes init: "P (messages s)"
    and keep: "\<And>now ev s. P (messages s) \<Longrightarrow> P (messages (snd (step now ev s)))"
  shows "P (messages (snd (run tevs s)))"
  using init
proof (induction tevs arbitrary: s)
  case Nil
  then show ?case by simp
next
  case (Cons tev rest)
  obtain now ev where tev: "tev = (now, ev)" by (cases tev)
  obtain r s' where st: "step now ev s = (r, s')" by (cases "step now ev s")
  from keep [OF Cons.prems, of now ev] st have P': "P (messages s')" by simp
  show ?case
  proof (cases r)
    case (Inl e)
    with st tev P' show ?thesis by simp
  next
    case (Inr u)
    with st tev have "run (tev # rest) s = run rest s'" by simp
    with Cons.IH [OF P'] show ?thesis by simp
  qed
qed

lemma run_ids_sorted:
  "sorted (map fst tevs) \<Longrightarrow> sorted (map id_m (messages s)) \<Longrightarrow>
   (\<forall>m\<in>set (messages s). \<forall>t\<in>set (map fst tevs). id_m m \<le> t) \<Longrightarrow>
   sorted (map id_m (messages (snd (run tevs s))))"
proof (induction tevs arbitrary: s)
  case Nil
  then show ?case by simp
next
  case (Cons tev rest)
  obtain now ev where tev: "tev = (now, ev)" by (cases tev)
  obtain r s' where st: "step now ev s = (r, s')" by (cases "step now ev s")
  from Cons.prems(1) tev have later: "\<forall>t\<in>set (map fst rest). now \<le> t"
    and srest: "sorted (map fst rest)"
    by simp_all
  from Cons.prems(3) tev have le_now: "\<forall>m\<in>set (messages s). id_m m \<le> now"
    and le_rest: "\<forall>m\<in>set (messages s). \<forall>t\<in>set (map fst rest). id_m m \<le> t"
    by simp_all
  from step_messages_cases [of now ev s] st
  have grow: "messages s' = messages s \<or>
      (\<exists>v. messages s' = messages s @ [\<lparr>id_m = now, text_m = v\<rparr>])"
    by auto
  with Cons.prems(2) le_now have sorted': "sorted (map id_m (messages s'))"
    by (auto simp: sorted_append)
  have bound': "\<forall>m\<in>set (messages s'). \<forall>t\<in>set (map fst rest). id_m m \<le> t"
  proof (intro ballI)
    fix m t
    assume m: "m \<in> set (messages s')" and t: "t \<in> set (map fst rest)"
    from grow m have "m \<in> set (messages s) \<or> id_m m = now" by auto
    then show "id_m m \<le> t"
    proof
      assume "m \<in> set (messages s)"
      with le_rest t show ?thesis by blast
    next
      assume "id_m m = now"
      with later t show ?thesis by blast
    qed
  qed
  show ?case
  proof (cases r)
    case (Inl e)
    with st tev sorted' show ?thesis by simp
  next
    case (Inr u)
    with st tev have "run (tev # rest) s = run rest s'" by simp
    with Cons.IH [OF srest sorted' bound'] show ?thesis by simp
  qed
qed

lemma step_prefix: "prefix (messages s) (messages (snd (step now ev s)))"
  using step_messages_cases [of now ev s] by auto

lemma run_prefix: "prefix (messages s) (messages (snd (run tevs s)))"
proof (induction tevs arbitrary: s)
  case Nil
  then show ?case by simp
next
  case (Cons tev rest)
  obtain now ev where tev: "tev = (now, ev)" by (cases tev)
  obtain r s' where st: "step now ev s = (r, s')" by (cases "step now ev s")
  from step_prefix [of s now ev] st have p: "prefix (messages s) (messages s')" by simp
  show ?case
  proof (cases r)
    case (Inl e)
    with st tev p show ?thesis by simp
  next
    case (Inr u)
    with st tev have "run (tev # rest) s = run rest s'" by simp
    with Cons.IH [of s'] p show ?thesis by (auto intro: prefix_order.trans)
  qed
qed

text \<open>Unfolding the model on concrete inputs.\<close>

lemmas eval_defs =
  init_state_def two_clients_def two_messages_def on_connection_def on_new_message_def
  on_disconnect_def validation_def console_log_def socket_emit_def io_emit_def trim_def
  white_space_def str_def Let_def

lemma two_clients_eval:
  "messages two_clients = []"
  "sockets two_clients = {''A'', ''B''}"
  "delivered two_clients ''A'' = [load_messages []]"
  "delivered two_clients ''B'' = [load_messages []]"
  by (auto simp: eval_defs)

lemma two_messages_eval:
  "messages two_messages =
     [\<lparr>id_m = 5, text_m = JString (str ''a'')\<rparr>, \<lparr>id_m = 5, text_m = JString (str ''b'')\<rparr>]"
  "sockets two_messages = {''A'', ''B''}"
  "delivered two_messages ''C'' = []"
  by (auto simp: eval_defs)

section \<open>Broadcast of an accepted submission\<close>

text \<open>
  Claim C1, as amended. When a connected client submits a string \<open>T\<close> that is not blank,
  the listener returns normally, appends the record \<^verbatim>\<open>{id: now, text: T}\<close> to
  the store, and every connected client, the submitter included, receives exactly one
  more event, a \<^verbatim>\<open>display_message\<close> whose text is \<open>T\<close> as submitted. The text
  is not trimmed: \<^verbatim>\<open>trim\<close> is applied in the validation only. Clients that are
  not connected receive nothing.
\<close>

theorem accepted_text_broadcast_raw:
  assumes "c \<in> sockets s" and "0 < length (trim T)"
  shows "fst (step now (New_message c (JString T)) s) = Inr () \<and>
   messages (snd (step now (New_message c (JString T)) s)) =
     messages s @ [\<lparr>id_m = now, text_m = JString T\<rparr>] \<and>
   (\<forall>d\<in>sockets s. delivered (snd (step now (New_message c (JString T)) s)) d =
      delivered s d @ [display_message \<lparr>id_m = now, text_m = JString T\<rparr>]) \<and>
   (\<forall>d. d \<notin> sockets s \<longrightarrow>
      delivered (snd (step now (New_message c (JString T)) s)) d = delivered s d)"
  using assms by (simp add: on_new_message_accept delivered_io_emit)

theorem accepted_text_broadcast_raw_witness:
  "''A'' \<in> sockets two_clients \<and> 0 < length (trim (str '' hi '')) \<and>
   fst (step 5 (New_message ''A'' (JString (str '' hi ''))) two_clients) = Inr () \<and>
   messages (snd (step 5 (New_message ''A'' (JString (str '' hi ''))) two_clients)) =
     [\<lparr>id_m = 5, text_m = JString (str '' hi '')\<rparr>] \<and>
   delivered (snd (step 5 (New_message ''A'' (JString (str '' hi ''))) two_clients)) ''A'' =
     [load_messages [], display_message \<lparr>id_m = 5, text_m = JString (str '' hi '')\<rparr>] \<and>
   delivered (snd (step 5 (New_message ''A'' (JString (str '' hi ''))) two_clients)) ''B'' =
     [load_messages [], display_message \<lparr>id_m = 5, text_m = JString (str '' hi '')\<rparr>]"
proof -
  have c: "''A'' \<in> sockets two_clients" by (simp add: two_clients_eval)
  have T: "0 < length (trim (str '' hi ''))" by (simp add: trim_def white_space_def str_def)
  from accepted_text_broadcast_raw [OF c T, of 5] c T show ?thesis
    by (simp add: two_clients_eval)
qed

text \<open>
  Claim C1, as stated, fails: client A connects and submits \<^verbatim>\<open>" hi "\<close>. The
  record stored and the \<^verbatim>\<open>display_message\<close> A receives carry the text
  \<^verbatim>\<open>" hi "\<close>, which is not its trimmed form \<^verbatim>\<open>"hi"\<close>.
\<close>

theorem trimmed_broadcast_counterexample:
  "messages (snd (run [(1, Connection ''A''),
                       (5, New_message ''A'' (JString (str '' hi '')))] init_state)) =
     [\<lparr>id_m = 5, text_m = JString (str '' hi '')\<rparr>] \<and>
   delivered (snd (run [(1, Connection ''A''),
                        (5, New_message ''A'' (JString (str '' hi '')))] init_state)) ''A'' =
     [load_messages [], display_message \<lparr>id_m = 5, text_m = JString (str '' hi '')\<rparr>] \<and>
   trim (str '' hi '') = str ''hi'' \<and>
   text_m \<lparr>id_m = 5, text_m = JString (str '' hi '')\<rparr> \<noteq> JString (trim (str '' hi ''))"
  by (simp add: eval_defs)

text \<open>
  Claim C10. For every accepted submission, the payload of the
  \<^verbatim>\<open>display_message\<close> broadcast is the very record appended to the store: after
  the listener has run, the store is the old store with one record added, and the event
  each connected client receives carries that last record.
\<close>

theorem broadcast_is_stored_record:
  assumes "c \<in> sockets s" and "validation msg = Inr True"
  shows "messages (snd (step now (New_message c msg) s)) \<noteq> [] \<and>
   butlast (messages (snd (step now (New_message c msg) s))) = messages s \<and>
   (\<forall>d\<in>sockets s. delivered (snd (step now (New_message c msg) s)) d =
      delivered s d @
        [display_message (last (messages (snd (step now (New_message c msg) s))))])"
proof -
  from assms(2) obtain t where "msg = JString t" "0 < length (trim t)"
    by (auto simp: validation_True_iff)
  with assms(1) show ?thesis
    by (simp add: on_new_message_accept delivered_io_emit)
qed

theorem broadcast_is_stored_record_witness:
  "''B'' \<in> sockets two_clients \<and> validation (JString (str ''hi'')) = Inr True \<and>
   last (messages (snd (step 5 (New_message ''B'' (JString (str ''hi''))) two_clients))) =
     \<lparr>id_m = 5, text_m = JString (str ''hi'')\<rparr> \<and>
   delivered (snd (step 5 (New_message ''B'' (JString (str ''hi''))) two_clients)) ''A'' =
     [load_messages [], display_message \<lparr>id_m = 5, text_m = JString (str ''hi'')\<rparr>]"
proof -
  have c: "''B'' \<in> sockets two_clients" by (simp add: two_clients_eval)
  have v: "validation (JString (str ''hi'')) = Inr True"
    by (simp add: validation_def trim_def white_space_def str_def)
  have l: "last (messages (snd (step 5 (New_message ''B'' (JString (str ''hi''))) two_clients))) =
     \<lparr>id_m = 5, text_m = JString (str ''hi'')\<rparr>"
    using c v by (simp add: on_new_message_def Let_def two_clients_eval)
  from broadcast_is_stored_record [OF c v, of 5] c v l show ?thesis
    by (simp add: two_clients_eval)
qed

section \<open>Backlog replay\<close>

text \<open>
  Claim C2. Whatever the store holds, a connecting client is sent, within the connection
  handler itself, one \<^verbatim>\<open>load_messages\<close> event whose payload is the store: the
  same records in the same order. No other client receives anything, the store does not
  change, and the handler does not throw.
\<close>

theorem connection_replays_backlog:
  "fst (step now (Connection c) s) = Inr () \<and>
   delivered (snd (step now (Connection c) s)) c =
     delivered s c @ [load_messages (messages s)] \<and>
   (\<forall>d. d \<noteq> c \<longrightarrow> delivered (snd (step now (Connection c) s)) d = delivered s d) \<and>
   messages (snd (step now (Connection c) s)) = messages s \<and>
   sockets (snd (step now (Connection c) s)) = insert c (sockets s)"
  by (simp add: on_connection_def Let_def delivered_socket_emit)

theorem connection_replays_backlog_witness:
  "delivered (snd (step 9 (Connection ''C'') two_messages)) ''C'' =
     [load_messages [\<lparr>id_m = 5, text_m = JString (str ''a'')\<rparr>,
                     \<lparr>id_m = 5, text_m = JString (str ''b'')\<rparr>]] \<and>
   delivered (snd (step 9 (Connection ''C'') two_messages)) ''A'' = delivered two_messages ''A''"
  using connection_replays_backlog [of 9 "''C''" two_messages]
  by (simp add: two_messages_eval)

section \<open>Validation\<close>

text \<open>
  Claim C3. For each of the submissions \<^verbatim>\<open>""\<close>, \<^verbatim>\<open>"   "\<close>,
  \<^verbatim>\<open>null\<close> and \<^verbatim>\<open>undefined\<close>, the \<^verbatim>\<open>new_message\<close>
  listener returns without throwing, leaves the store (and so its length) unchanged, and
  emits nothing to any client: no \<^verbatim>\<open>display_message\<close> and no error event.
\<close>

theorem blank_submission_dropped:
  "msg \<in> {JString [], JString (str ''   ''), JNull, JUndefined} \<Longrightarrow>
   fst (on_new_message now msg s) = Inr () \<and>
   messages (snd (on_new_message now msg s)) = messages s \<and>
   length (messages (snd (on_new_message now msg s))) = length (messages s) \<and>
   delivered (snd (on_new_message now msg s)) = delivered s"
proof -
  assume "msg \<in> {JString [], JString (str ''   ''), JNull, JUndefined}"
  then have "validation msg = Inr False"
    by (auto simp: validation_def trim_def white_space_def str_def)
  then show ?thesis by (simp add: on_new_message_reject)
qed

theorem blank_submission_dropped_witness:
  "fst (on_new_message 5 (JString (str ''   '')) init_state) = Inr () \<and>
   messages (snd (on_new_message 5 (JString (str ''   '')) init_state)) = [] \<and>
   delivered (snd (on_new_message 5 (JString (str ''   '')) init_state)) ''A'' = [] \<and>
   fst (on_new_message 5 JNull init_state) = Inr () \<and>
   messages (snd (on_new_message 5 JNull init_state)) = []"
  using blank_submission_dropped [of "JString (str ''   '')" 5 init_state]
    blank_submission_dropped [of JNull 5 init_state]
  by (simp add: init_state_def)

text \<open>
  Claim C9. The validation is not total: for every truthy payload that is not a string
  (a non-zero number, \<^verbatim>\<open>true\<close>, any object or array), evaluating
  \<^verbatim>\<open>msg.trim()\<close> throws a TypeError, and the listener ends by that throw
  instead of dropping the submission. The witness reaches the throw with the number 42
  and with the empty object.
\<close>

theorem truthy_non_string_throws:
  "truthy msg \<Longrightarrow> \<not> is_string msg \<Longrightarrow>
   validation msg = Inl TypeError \<and>
   on_new_message now msg s = (Inl TypeError, console_log (Message_received msg) s)"
  by (simp add: validation_throws on_new_message_throw)

theorem truthy_non_string_throws_witness:
  "truthy (JNumber (Fin 42)) \<and> \<not> is_string (JNumber (Fin 42)) \<and>
   validation (JNumber (Fin 42)) = Inl TypeError \<and>
   fst (on_new_message 5 (JNumber (Fin 42)) init_state) = Inl TypeError \<and>
   truthy (JObject []) \<and> \<not> is_string (JObject []) \<and>
   fst (on_new_message 5 (JObject []) init_state) = Inl TypeError"
  using truthy_non_string_throws [of "JNumber (Fin 42)" 5 init_state]
    truthy_non_string_throws [of "JObject []" 5 init_state]
  by simp

section \<open>Invariants of the store\<close>

text \<open>
  Claim C4. After any sequence of connection, submission and disconnect events from the
  empty store, every stored record's text is a string \<open>t\<close> with
  \<^verbatim>\<open>t.trim().length > 0\<close>.
\<close>

theorem stored_text_not_blank:
  "\<forall>m\<in>set (messages (snd (run tevs init_state))).
     \<exists>t. text_m m = JString t \<and> 0 < length (trim t)"
proof (rule run_invariant [where P = "\<lambda>ms. \<forall>m\<in>set ms. \<exists>t. text_m m = JString t \<and> 0 < length (trim t)"])
  show "\<forall>m\<in>set (messages init_state). \<exists>t. text_m m = JString t \<and> 0 < length (trim t)"
    by (simp add: init_state_def)
next
  fix now ev and s :: state
  assume "\<forall>m\<in>set (messages s). \<exists>t. text_m m = JString t \<and> 0 < length (trim t)"
  with step_messages_cases [of now ev s]
  show "\<forall>m\<in>set (messages (snd (step now ev s))). \<exists>t. text_m m = JString t \<and> 0 < length (trim t)"
    by auto
qed

theorem stored_text_not_blank_witness:
  "messages (snd (run [(1, Connection ''A''),
                       (5, New_message ''A'' (JString (str '' hi ''))),
                       (6, New_message ''A'' (JString (str ''   ''))),
                       (7, Disconnect ''A'')] init_state)) =
     [\<lparr>id_m = 5, text_m = JString (str '' hi '')\<rparr>] \<and>
   0 < length (trim (str '' hi ''))"
  using stored_text_not_blank [of "[(1, Connection ''A''),
                       (5, New_message ''A'' (JString (str '' hi ''))),
                       (6, New_message ''A'' (JString (str ''   ''))),
                       (7, Disconnect ''A'')]"]
  by (simp add: eval_defs)

text \<open>
  Claim C5. Every stored and every broadcast record has an integer id (the type of
  \<open>id_m\<close>), and when the clock readings of a run are non-decreasing, so are the ids of
  the stored records in acceptance order.
\<close>

theorem ids_non_decreasing:
  "sorted (map fst tevs) \<Longrightarrow> sorted (map id_m (messages (snd (run tevs init_state))))"
  by (rule run_ids_sorted) (simp_all add: init_state_def)

theorem ids_non_decreasing_witness:
  "sorted (map fst [(1::int, Connection ''A''),
                    (5, New_message ''A'' (JString (str ''a''))),
                    (5, New_message ''A'' (JString (str ''b''))),
                    (9, New_message ''A'' (JString (str ''c'')))]) \<and>
   map id_m (messages (snd (run [(1, Connection ''A''),
                    (5, New_message ''A'' (JString (str ''a''))),
                    (5, New_message ''A'' (JString (str ''b''))),
                    (9, New_message ''A'' (JString (str ''c'')))] init_state))) = [5, 5, 9] \<and>
   sorted (map id_m (messages (snd (run [(1, Connection ''A''),
                    (5, New_message ''A'' (JString (str ''a''))),
                    (5, New_message ''A'' (JString (str ''b''))),
                    (9, New_message ''A'' (JString (str ''c'')))] init_state))))"
  using ids_non_decreasing [of "[(1, Connection ''A''),
                    (5, New_message ''A'' (JString (str ''a''))),
                    (5, New_message ''A'' (JString (str ''b''))),
                    (9, New_message ''A'' (JString (str ''c'')))]"]
  by (simp add: eval_defs)

text \<open>
  Claim C6. The store is append-only. Whatever event is dispatched (connection,
  submission or disconnect, and however its handler ends), the store before is a prefix
  of the store after and at most one record is added; so over a whole run no stored
  record is changed, removed or moved.
\<close>

theorem store_append_only:
  "prefix (messages s) (messages (snd (step now ev s))) \<and>
   length (messages (snd (step now ev s))) \<le> length (messages s) + 1 \<and>
   prefix (messages s) (messages (snd (run tevs s)))"
  using step_messages_cases [of now ev s] run_prefix [of s tevs] by auto

theorem store_append_only_witness:
  "prefix (messages two_messages)
     (messages (snd (step 9 (New_message ''A'' (JString (str ''c''))) two_messages))) \<and>
   messages (snd (step 9 (New_message ''A'' (JString (str ''c''))) two_messages)) =
     [\<lparr>id_m = 5, text_m = JString (str ''a'')\<rparr>, \<lparr>id_m = 5, text_m = JString (str ''b'')\<rparr>,
      \<lparr>id_m = 9, text_m = JString (str ''c'')\<rparr>] \<and>
   messages (snd (run [(10, Disconnect ''A''), (11, Connection ''C'')] two_messages)) =
     messages two_messages"
  using store_append_only [of two_messages 9 "New_message ''A'' (JString (str ''c''))"
      "[(10, Disconnect ''A''), (11, Connection ''C'')]"]
  by (simp add: two_messages_eval eval_defs)

section \<open>Disconnection\<close>

text \<open>
  Claim C7. Dispatching a client's disconnect removes that client from the connected set
  and does not throw; the store is unchanged and nothing is sent to anyone. What any
  other client receives from a later submission of any other client is the same as if
  the disconnect had not happened: a still-connected client receives the
  \<^verbatim>\<open>display_message\<close> of every later accepted submission. (The handler's one
  effect of its own is a console line.)
\<close>

theorem disconnect_frame:
  "fst (step t (Disconnect a) s) = Inr () \<and>
   sockets (snd (step t (Disconnect a) s)) = sockets s - {a} \<and>
   messages (snd (step t (Disconnect a) s)) = messages s \<and>
   delivered (snd (step t (Disconnect a) s)) = delivered s \<and>
   (\<forall>b c now msg. b \<noteq> a \<longrightarrow> c \<noteq> a \<longrightarrow>
      delivered (snd (step now (New_message c msg) (snd (step t (Disconnect a) s)))) b =
      delivered (snd (step now (New_message c msg) s)) b) \<and>
   (\<forall>b c now T. b \<in> sockets s \<longrightarrow> b \<noteq> a \<longrightarrow> c \<in> sockets s \<longrightarrow> c \<noteq> a \<longrightarrow>
        0 < length (trim T) \<longrightarrow>
      delivered (snd (step now (New_message c (JString T)) (snd (step t (Disconnect a) s)))) b =
      delivered s b @ [display_message \<lparr>id_m = now, text_m = JString T\<rparr>])"
  by (simp add: on_disconnect_def delivered_on_new_message validation_JString)

theorem disconnect_frame_witness:
  "sockets (snd (step 3 (Disconnect ''A'') two_clients)) = {''B''} \<and>
   messages (snd (step 3 (Disconnect ''A'') two_clients)) = [] \<and>
   delivered (snd (step 3 (Disconnect ''A'') two_clients)) ''B'' = [load_messages []] \<and>
   delivered (snd (step 5 (New_message ''B'' (JString (str ''hi'')))
                (snd (step 3 (Disconnect ''A'') two_clients)))) ''B'' =
     [load_messages [], display_message \<lparr>id_m = 5, text_m = JString (str ''hi'')\<rparr>]"
proof -
  note d = disconnect_frame [of 3 "''A''" two_clients]
  have T: "0 < length (trim (str ''hi''))" by (simp add: trim_def white_space_def str_def)
  have B: "''B'' \<in> sockets two_clients" "''B'' \<noteq> ''A''" by (simp_all add: two_clients_eval)
  from d have s: "sockets (snd (step 3 (Disconnect ''A'') two_clients)) = sockets two_clients - {''A''}"
    by (rule conjunct1 [OF conjunct2])
  from d have m: "messages (snd (step 3 (Disconnect ''A'') two_clients)) = messages two_clients"
    by (rule conjunct1 [OF conjunct2 [OF conjunct2]])
  from d have dl: "delivered (snd (step 3 (Disconnect ''A'') two_clients)) = delivered two_clients"
    by (rule conjunct1 [OF conjunct2 [OF conjunct2 [OF conjunct2]]])
  from d have "\<forall>b c now T. b \<in> sockets two_clients \<longrightarrow> b \<noteq> ''A'' \<longrightarrow> c \<in> sockets two_clients \<longrightarrow>
        c \<noteq> ''A'' \<longrightarrow> 0 < length (trim T) \<longrightarrow>
      delivered (snd (step now (New_message c (JString T)) (snd (step 3 (Disconnect ''A'') two_clients)))) b =
      delivered two_clients b @ [display_message \<lparr>id_m = now, text_m = JString T\<rparr>]"
    by (rule conjunct2 [OF conjunct2 [OF conjunct2 [OF conjunct2 [OF conjunct2]]]])
  with B T have later: "delivered (snd (step 5 (New_message ''B'' (JString (str ''hi'')))
      (snd (step 3 (Disconnect ''A'') two_clients)))) ''B'' =
      delivered two_clients ''B'' @ [display_message \<lparr>id_m = 5, text_m = JString (str ''hi'')\<rparr>]"
    by blast
  have sub: "sockets two_clients - {''A''} = {''B''}" by (auto simp: two_clients_eval)
  from s m dl later sub show ?thesis by (simp add: two_clients_eval)
qed

end
